theory Spec2Isabelle
  imports Complex_Main "HOL-Library.Sublist" "HOL-Library.Multiset"
begin

section \<open>Python string primitives\<close>

text \<open>
  A text is a list of characters, a character being a code point below 256; every
  configured keyword of the sources is written in the ASCII part of that range.
  \<open>lower\<close> is \<^verbatim>\<open>str.lower()\<close>, which on this range maps the letters \<open>A\<close> to \<open>Z\<close> and the
  capital letters from U+00C0 to U+00DE (U+00D7 is not one) to their small forms;
  \<open>str_in k s\<close> is the containment test \<^verbatim>\<open>k in s\<close>.
\<close>

definition upper_letters :: string where
  "upper_letters =
     ''ABCDEFGHIJKLMNOPQRSTUVWXYZ''
     @ [CHR 0xC0, CHR 0xC1, CHR 0xC2, CHR 0xC3, CHR 0xC4, CHR 0xC5, CHR 0xC6, CHR 0xC7,
        CHR 0xC8, CHR 0xC9, CHR 0xCA, CHR 0xCB, CHR 0xCC, CHR 0xCD, CHR 0xCE, CHR 0xCF,
        CHR 0xD0, CHR 0xD1, CHR 0xD2, CHR 0xD3, CHR 0xD4, CHR 0xD5, CHR 0xD6, CHR 0xD8,
        CHR 0xD9, CHR 0xDA, CHR 0xDB, CHR 0xDC, CHR 0xDD, CHR 0xDE]"

definition lower_letters :: string where
  "lower_letters =
     ''abcdefghijklmnopqrstuvwxyz''
     @ [CHR 0xE0, CHR 0xE1, CHR 0xE2, CHR 0xE3, CHR 0xE4, CHR 0xE5, CHR 0xE6, CHR 0xE7,
        CHR 0xE8, CHR 0xE9, CHR 0xEA, CHR 0xEB, CHR 0xEC, CHR 0xED, CHR 0xEE, CHR 0xEF,
        CHR 0xF0, CHR 0xF1, CHR 0xF2, CHR 0xF3, CHR 0xF4, CHR 0xF5, CHR 0xF6, CHR 0xF8,
        CHR 0xF9, CHR 0xFA, CHR 0xFB, CHR 0xFC, CHR 0xFD, CHR 0xFE]"

definition lower_char :: "char \<Rightarrow> char" where
  "lower_char c =
     (case map_of (zip upper_letters lower_letters) c of
        Some d \<Rightarrow> d
      | None \<Rightarrow> c)"

definition lower :: "string \<Rightarrow> string" where
  "lower s = map lower_char s"

fun starts_with :: "string \<Rightarrow> string \<Rightarrow> bool" where
  "starts_with s [] = True"
| "starts_with [] (k # ks) = False"
| "starts_with (c # s) (k # ks) = (c = k \<and> starts_with s ks)"

fun str_in :: "string \<Rightarrow> string \<Rightarrow> bool" where
  "str_in k [] = (k = [])"
| "str_in k (c # s) = (starts_with (c # s) k \<or> str_in k s)"

section \<open>Tone classification: \<open>analyze_language_tone\<close> of \<open>FORENSIC_METADATA_EXTRACTOR.py\<close>\<close>

definition aggressive_indicators :: "string list" where
  "aggressive_indicators = [''must'', ''require'', ''demand'', ''immediately'', ''failure to'']"

definition passive_indicators :: "string list" where
  "passive_indicators = [''please'', ''kindly'', ''would appreciate'', ''if possible'']"

definition professional_indicators :: "string list" where
  "professional_indicators =
     [''pursuant to'', ''in accordance with'', ''please find'', ''reference'']"

text \<open>\<^verbatim>\<open>sum(1 for indicator in indicators if indicator in content_lower)\<close>\<close>

definition indicator_score :: "string list \<Rightarrow> string \<Rightarrow> int" where
  "indicator_score indicators content_lower =
     (\<Sum>indicator\<leftarrow>indicators. if str_in indicator content_lower then 1 else 0)"

definition aggressive_score :: "string \<Rightarrow> int" where
  "aggressive_score content = indicator_score aggressive_indicators (lower content)"

definition passive_score :: "string \<Rightarrow> int" where
  "passive_score content = indicator_score passive_indicators (lower content)"

definition professional_score :: "string \<Rightarrow> int" where
  "professional_score content = indicator_score professional_indicators (lower content)"

definition analyze_language_tone :: "string \<Rightarrow> string" where
  "analyze_language_tone content =
     (if aggressive_score content > max (passive_score content) (professional_score content)
        then ''aggressive''
      else if passive_score content > professional_score content then ''passive''
      else if professional_score content > 0 then ''professional''
      else ''neutral'')"

section \<open>Emotion keyword groups: \<open>detect_emotions\<close> of \<open>NARRATIVE_INTELLIGENCE_SYSTEM.py\<close>\<close>

definition emotion_keywords :: "(string \<times> string list) list" where
  "emotion_keywords =
     [(''anger'', [''angry'', ''furious'', ''irritated'', ''annoyed'', ''frustrated'']),
      (''fear'', [''worried'', ''concerned'', ''anxious'', ''afraid'', ''nervous'']),
      (''joy'', [''happy'', ''pleased'', ''satisfied'', ''glad'', ''delighted'']),
      (''sadness'', [''sad'', ''disappointed'', ''upset'', ''discouraged'']),
      (''confidence'', [''confident'', ''certain'', ''sure'', ''positive'']),
      (''urgency'', [''urgent'', ''immediate'', ''asap'', ''rush'', ''quickly''])]"

text \<open>
  The result dictionary is an association list in insertion order; a group whose score
  is 0 gets no entry.
\<close>

definition detect_emotions :: "string \<Rightarrow> (string \<times> int) list" where
  "detect_emotions text =
     (let text_lower = lower text
      in filter (\<lambda>(emotion, score). score > 0)
           (map (\<lambda>(emotion, keywords). (emotion, indicator_score keywords text_lower))
              emotion_keywords))"

text \<open>
  The specification's reading of a score, for comparison with the code: the number of
  occurrences of the group's keywords in the body, an occurrence being a position of the
  body at which the keyword starts.
\<close>

fun count_occurrences :: "string \<Rightarrow> string \<Rightarrow> nat" where
  "count_occurrences k [] = (if k = [] then 1 else 0)"
| "count_occurrences k (c # s) =
     (if starts_with (c # s) k then 1 else 0) + count_occurrences k s"

definition occurrence_score :: "string list \<Rightarrow> string \<Rightarrow> int" where
  "occurrence_score keywords body = (\<Sum>k\<leftarrow>keywords. int (count_occurrences k body))"

section \<open>Machiavellian traits and the risk profile: \<open>score_machiavellian_traits\<close>, \<open>build_risk_profile\<close>\<close>

record mach_traits =
  deception :: int
  emotional_control :: int
  strategic_vagueness :: int
  dominance_cue :: int
  machiavellian_index :: real

text \<open>
  \<^verbatim>\<open>round(x, 2)\<close>: the nearest multiple of one hundredth, a tie going to the even
  neighbour.
\<close>

definition round_half_even :: "real \<Rightarrow> int" where
  "round_half_even x =
     (let f = \<lfloor>x\<rfloor>; d = x - of_int f
      in if d < 1 / 2 then f else if d > 1 / 2 then f + 1 else if even f then f else f + 1)"

definition py_round2 :: "real \<Rightarrow> real" where
  "py_round2 x = of_int (round_half_even (x * 100)) / 100"

definition score_machiavellian_traits :: "string \<Rightarrow> mach_traits" where
  "score_machiavellian_traits text =
     (let vagueness = (if str_in ''unforeseen circumstance'' (lower text) then 0 + 1 else 0);
          dominance = (if str_in ''as per our agreement'' (lower text) then 0 + 1 else 0);
          control = (if str_in ''regrettably'' (lower text) then 0 + 1 else 0);
          decept = (if list_ex (\<lambda>x. str_in x (lower text))
                         [''confidential'', ''subjective'', ''understanding'']
                    then 0 + 1 else 0);
          total = decept + control + vagueness + dominance
      in \<lparr>deception = decept, emotional_control = control, strategic_vagueness = vagueness,
          dominance_cue = dominance, machiavellian_index = py_round2 (of_int total / 4)\<rparr>)"

record risk_profile =
  risk_score :: int
  flags :: "string list"
  traits :: mach_traits

definition add_flag :: "string \<Rightarrow> risk_profile \<Rightarrow> risk_profile" where
  "add_flag f profile = profile\<lparr>risk_score := risk_score profile + 1, flags := flags profile @ [f]\<rparr>"

definition build_risk_profile :: "string \<Rightarrow> risk_profile" where
  "build_risk_profile text =
     (let mach = score_machiavellian_traits text;
          profile = \<lparr>risk_score = 0, flags = [], traits = mach\<rparr>;
          profile = (if machiavellian_index mach \<ge> 1
                     then add_flag ''High Machiavellian traits'' profile else profile);
          profile = (if deception mach \<ge> 1
                     then add_flag ''Potential deception'' profile else profile);
          profile = (if str_in ''withhold'' (lower text)
                     then add_flag ''Intent to obscure information'' profile else profile)
      in profile)"

section \<open>Strategy success probability: \<open>calculate_success_probability\<close>\<close>

definition base_probabilities :: "(string \<times> real) list" where
  "base_probabilities =
     [(''aggressive_litigation'', 0.6),
      (''collaborative_negotiation'', 0.75),
      (''mediation_approach'', 0.8),
      (''regulatory_escalation'', 0.7),
      (''public_pressure'', 0.5),
      (''settlement_negotiation'', 0.85)]"

text \<open>\<^verbatim>\<open>d.get(key, default)\<close> on a dictionary.\<close>

definition dict_get :: "('k \<rightharpoonup> 'v) \<Rightarrow> 'k \<Rightarrow> 'v \<Rightarrow> 'v" where
  "dict_get d key dflt = (case d key of None \<Rightarrow> dflt | Some v \<Rightarrow> v)"

definition np_mean :: "real list \<Rightarrow> real" where
  "np_mean xs = sum_list xs / real (length xs)"

text \<open>The returned expression \<^verbatim>\<open>min(1.0, base + adjustments)\<close>.\<close>

definition clamp_probability :: "real \<Rightarrow> real \<Rightarrow> real" where
  "clamp_probability base adjustments = min 1.0 (base + adjustments)"

text \<open>
  \<open>relationship_data\<close> is a dictionary of per-entity dictionaries, given as the list of
  its items; \<open>narrative_data\<close> is not read.
\<close>

definition calculate_success_probability ::
  "string \<Rightarrow> 'n \<Rightarrow> (string \<times> (string \<rightharpoonup> real)) list \<Rightarrow> real" where
  "calculate_success_probability strategy narrative_data relationship_data =
     (let adjustments =
            (if relationship_data \<noteq> []
             then (let avg_relationship_strength =
                         np_mean (map (\<lambda>(name, r). dict_get r ''overall_power_score'' 0.5)
                                    relationship_data)
                   in if avg_relationship_strength > 0.7 then 0 + 0.1 else 0)
             else 0)
      in clamp_probability (dict_get (map_of base_probabilities) strategy 0.5) adjustments)"

section \<open>Causal relationship map: \<open>build_causal_relationship_map\<close>\<close>

text \<open>
  \<open>assess_causal_relationship\<close> and \<open>extract_causal_evidence\<close> are called by the method
  and defined nowhere in the sources; they are parameters here.
\<close>

record ('e, 'v) causal_link =
  cause_event :: 'e
  effect_event :: 'e
  causal_strength :: real
  evidence :: 'v

definition build_causal_relationship_map ::
  "('e \<Rightarrow> 'e \<Rightarrow> real) \<Rightarrow> ('e \<Rightarrow> 'e \<Rightarrow> 'v) \<Rightarrow> 'e list \<Rightarrow> ('e, 'v) causal_link list" where
  "build_causal_relationship_map assess_causal_relationship extract_causal_evidence timeline =
     concat (map (\<lambda>i.
       concat (map (\<lambda>j.
         (let previous_event = timeline ! j;
              event = timeline ! i;
              strength = assess_causal_relationship previous_event event
          in if strength > 0.3
             then [\<lparr>cause_event = previous_event, effect_event = event,
                    causal_strength = strength,
                    evidence = extract_causal_evidence previous_event event\<rparr>]
             else []))
         [nat (max 0 (int i - 5)) ..< i]))
       [0 ..< length timeline])"

text \<open>
  The index pairs \<open>(j, i)\<close> at which the two loops append a link, in the order in which
  they are appended.
\<close>

definition causal_index_pairs :: "('e \<Rightarrow> 'e \<Rightarrow> real) \<Rightarrow> 'e list \<Rightarrow> (nat \<times> nat) list" where
  "causal_index_pairs assess_causal_relationship timeline =
     concat (map (\<lambda>i.
       concat (map (\<lambda>j.
         if assess_causal_relationship (timeline ! j) (timeline ! i) > 0.3 then [(j, i)] else [])
         [nat (max 0 (int i - 5)) ..< i]))
       [0 ..< length timeline])"

definition link_at ::
  "('e \<Rightarrow> 'e \<Rightarrow> real) \<Rightarrow> ('e \<Rightarrow> 'e \<Rightarrow> 'v) \<Rightarrow> 'e list \<Rightarrow> nat \<times> nat \<Rightarrow> ('e, 'v) causal_link" where
  "link_at assess_causal_relationship extract_causal_evidence timeline p =
     \<lparr>cause_event = timeline ! fst p, effect_event = timeline ! snd p,
      causal_strength = assess_causal_relationship (timeline ! fst p) (timeline ! snd p),
      evidence = extract_causal_evidence (timeline ! fst p) (timeline ! snd p)\<rparr>"

section \<open>Legal verification: \<open>GOVERNMENT_API_INTEGRATOR.py\<close> and \<open>verify_all_legal_information\<close>\<close>

text \<open>
  \<^verbatim>\<open>str.strip()\<close> removes leading and trailing whitespace: below 256 the characters
  U+0009 to U+000D, U+001C to U+0020, U+0085 and U+00A0.
\<close>

definition is_space :: "char \<Rightarrow> bool" where
  "is_space c = (c \<in> set [CHR 0x09, CHR 0x0A, CHR 0x0B, CHR 0x0C, CHR 0x0D,
                            CHR 0x1C, CHR 0x1D, CHR 0x1E, CHR 0x1F, CHR 0x20,
                            CHR 0x85, CHR 0xA0])"

definition strip :: "string \<Rightarrow> string" where
  "strip s = rev (dropWhile is_space (rev (dropWhile is_space s)))"

text \<open>
  The three pattern searches of \<open>AutomaticLegalVerifier\<close> are made with the regular
  expression engine; what they find in a text is a parameter.
\<close>

record pattern_search =
  extract_case_citations :: "string \<Rightarrow> string list"
  extract_statute_references :: "string \<Rightarrow> string list"
  check_hallucination_indicators :: "string \<Rightarrow> string list"

record verification_result =
  reference :: string
  verified :: bool

text \<open>
  \<open>verify_case_citation\<close> and \<open>verify_statute\<close> build their result without any lookup
  (\<^verbatim>\<open>'verified': True\<close>). Of a result only the reference and that entry are kept; the
  analysis date of a verification and the verifier's log, which nothing reads, are left
  out.
\<close>

definition verify_case_citation :: "string \<Rightarrow> verification_result" where
  "verify_case_citation citation = \<lparr>reference = citation, verified = True\<rparr>"

definition verify_statute :: "string \<Rightarrow> verification_result" where
  "verify_statute statute_reference = \<lparr>reference = statute_reference, verified = True\<rparr>"

definition calculate_confidence_score :: "verification_result list \<Rightarrow> real" where
  "calculate_confidence_score verifications =
     (if verifications = [] then 0
      else (let verified_count = length (filter verified verifications);
                total_count = length verifications
            in (real verified_count / real total_count) * 100))"

record verification =
  text_analyzed :: string
  verifications :: "verification_result list"
  warnings :: "string list"
  confidence_score :: real

definition auto_verify_legal_content :: "pattern_search \<Rightarrow> string \<Rightarrow> verification" where
  "auto_verify_legal_content rx text =
     (let results = map verify_case_citation (extract_case_citations rx text)
                    @ map verify_statute (extract_statute_references rx text)
      in \<lparr>text_analyzed = text, verifications = results,
          warnings = check_hallucination_indicators rx text,
          confidence_score = calculate_confidence_score results\<rparr>)"

text \<open>
  The intelligence input: \<open>email_data\<close> maps a contact to its list of entries; an entry
  contributes its \<open>content\<close> value, a string or \<^verbatim>\<open>None\<close>, when it is a dictionary with that
  key. The behavioural analysis contributes its string rendering.
\<close>

datatype py_value = PyNone | PyStr string

datatype email_entry = NotADict | EmailDict "py_value option"

record intelligence_data =
  email_data :: "(string \<times> email_entry list) list option"
  behavioral_analysis :: "string option"

definition all_text_content :: "intelligence_data \<Rightarrow> py_value list" where
  "all_text_content d =
     (case email_data d of
        None \<Rightarrow> []
      | Some contacts \<Rightarrow>
          concat (map (\<lambda>(contact, contact_emails).
            concat (map (\<lambda>email. case email of EmailDict (Some c) \<Rightarrow> [c] | _ \<Rightarrow> [])
                      contact_emails))
            contacts))
     @ (case behavioral_analysis d of None \<Rightarrow> [] | Some s \<Rightarrow> [PyStr s])"

text \<open>\<^verbatim>\<open>content and len(content.strip()) > 10\<close>\<close>

definition substantial :: "py_value \<Rightarrow> bool" where
  "substantial content =
     (case content of PyNone \<Rightarrow> False | PyStr s \<Rightarrow> s \<noteq> [] \<and> length (strip s) > 10)"

record overall_verification =
  total_content_pieces :: nat
  verified_pieces :: nat
  verification_rate :: real
  government_verified :: bool
  detailed_results :: "(nat \<times> verification) list"

text \<open>The key \<^verbatim>\<open>content_i\<close> of a detailed result is its index \<open>i\<close>.\<close>

definition verify_all_legal_information ::
  "pattern_search \<Rightarrow> intelligence_data \<Rightarrow> overall_verification" where
  "verify_all_legal_information rx d =
     (let verification_results =
            concat (map (\<lambda>(i, content).
              case content of
                PyStr s \<Rightarrow> if substantial content then [(i, auto_verify_legal_content rx s)] else []
              | PyNone \<Rightarrow> [])
              (enumerate 0 (all_text_content d)));
          total_verifications = length verification_results;
          verified_count = length (filter (\<lambda>(k, v). confidence_score v \<ge> 80) verification_results)
      in \<lparr>total_content_pieces = total_verifications,
          verified_pieces = verified_count,
          verification_rate =
            (if total_verifications > 0
             then real verified_count / real total_verifications * 100 else 100),
          government_verified = (verified_count = total_verifications),
          detailed_results = verification_results\<rparr>)"

section \<open>Timestamps and Python's sort\<close>

text \<open>
  A \<^verbatim>\<open>datetime\<close> is naive (a wall-clock reading, counted from \<^verbatim>\<open>datetime.min\<close>) or aware
  (an instant, counted from a fixed origin). \<^verbatim>\<open>email.utils.parsedate_to_datetime\<close> yields
  an aware value for a date with a time zone and a naive one for the zone \<^verbatim>\<open>-0000\<close>;
  \<^verbatim>\<open>datetime.min\<close> and \<^verbatim>\<open>datetime.now()\<close> are naive.
\<close>

datatype datetime = Naive nat | Aware int

definition datetime_min :: datetime where
  "datetime_min = Naive 0"

datatype py_error = TypeError | ValueError | OSError | KeyError | AttributeError | DatabaseError

text \<open>
  A sort key is a \<^verbatim>\<open>datetime\<close> or \<^verbatim>\<open>None\<close>. The comparison \<^verbatim>\<open><\<close> is defined between two
  naive values and between two aware values; between a naive and an aware value, and
  whenever an operand is \<^verbatim>\<open>None\<close>, it raises \<^verbatim>\<open>TypeError\<close>.
\<close>

fun lt_defined :: "datetime option \<Rightarrow> datetime option \<Rightarrow> bool" where
  "lt_defined (Some (Naive a)) (Some (Naive b)) = True"
| "lt_defined (Some (Aware a)) (Some (Aware b)) = True"
| "lt_defined k k' = False"

fun rank :: "datetime option \<Rightarrow> int" where
  "rank None = 0"
| "rank (Some (Naive n)) = int n"
| "rank (Some (Aware i)) = i"

fun pairwise_comparable :: "datetime option list \<Rightarrow> bool" where
  "pairwise_comparable [] = True"
| "pairwise_comparable (k # ks) = (list_all (lt_defined k) ks \<and> pairwise_comparable ks)"

text \<open>
  \<^verbatim>\<open>sorted(xs, key=key)\<close> and \<^verbatim>\<open>xs.sort(key=key)\<close>: a stable sort that compares keys with
  \<^verbatim>\<open><\<close>. A list of fewer than two elements is returned without a comparison. On a longer
  list every key takes part in a comparison, and the comparisons made connect all keys,
  so the sort raises \<^verbatim>\<open>TypeError\<close> exactly when two keys of the list cannot be compared.
\<close>

definition py_sorted :: "('a \<Rightarrow> datetime option) \<Rightarrow> 'a list \<Rightarrow> py_error + 'a list" where
  "py_sorted key xs =
     (if pairwise_comparable (map key xs) then Inr (sort_key (\<lambda>x. rank (key x)) xs)
      else Inl TypeError)"

section \<open>Forensic timeline: \<open>create_forensic_timeline\<close> of \<open>FORENSIC_METADATA_EXTRACTOR.py\<close>\<close>

record forensic_event =
  timestamp :: "datetime option"
  event_type :: string
  participants :: "string list"
  event_subject :: string
  metadata_hash :: string

text \<open>
  The two ends of \<open>date_range\<close> are kept as timestamps (the code renders them with
  \<^verbatim>\<open>isoformat()\<close>). \<open>analyze_timeline_gaps\<close> is called and defined nowhere in the sources;
  it is a parameter.
\<close>

record 'g timeline_analysis =
  total_events :: nat
  date_range_start :: "datetime option"
  date_range_end :: "datetime option"
  events :: "forensic_event list"
  gap_analysis :: 'g

text \<open>\<^verbatim>\<open>key=lambda x: x['timestamp'] if x['timestamp'] else datetime.min\<close>\<close>

definition forensic_key :: "forensic_event \<Rightarrow> datetime option" where
  "forensic_key x = (case timestamp x of Some t \<Rightarrow> Some t | None \<Rightarrow> Some datetime_min)"

definition create_forensic_timeline ::
  "(forensic_event list \<Rightarrow> 'g) \<Rightarrow> forensic_event list \<Rightarrow> py_error + 'g timeline_analysis" where
  "create_forensic_timeline analyze_timeline_gaps forensic_timeline =
     (case py_sorted forensic_key forensic_timeline of
        Inl e \<Rightarrow> Inl e
      | Inr timeline \<Rightarrow>
          Inr \<lparr>total_events = length timeline,
               date_range_start = (if timeline \<noteq> [] then timestamp (hd timeline) else None),
               date_range_end = (if timeline \<noteq> [] then timestamp (last timeline) else None),
               events = timeline,
               gap_analysis = analyze_timeline_gaps timeline\<rparr>)"

section \<open>Narrative timeline: \<open>extract_comprehensive_timeline\<close> of \<open>NARRATIVE_INTELLIGENCE_SYSTEM.py\<close>\<close>

record email_source =
  es_timestamp :: "datetime option"
  es_sender :: string
  es_recipient :: string
  es_subject :: string

text \<open>A document is read with \<^verbatim>\<open>doc.get\<close>: each key may be absent.\<close>

record document_source =
  ds_date :: "datetime option option"
  ds_document_type :: "string option"
  ds_parties :: "string list option"
  ds_title :: "string option"

record all_sources =
  emails :: "email_source list option"
  documents :: "document_source list option"

datatype event_details = EmailDetails email_source | DocumentDetails document_source

record timeline_event =
  te_timestamp :: "datetime option"
  te_type :: string
  te_subtype :: string
  te_participants :: "string list"
  te_content :: string
  te_details :: event_details
  te_importance :: string

text \<open>
  \<open>assess_event_importance\<close> is called and defined nowhere in the sources; it is a
  parameter. \<open>now\<close> is the reading of \<^verbatim>\<open>datetime.now()\<close>.
\<close>

definition extract_comprehensive_timeline ::
  "(email_source \<Rightarrow> string) \<Rightarrow> datetime \<Rightarrow> all_sources \<Rightarrow> py_error + timeline_event list" where
  "extract_comprehensive_timeline assess_event_importance now sources =
     (let timeline =
            (case emails sources of
               None \<Rightarrow> []
             | Some es \<Rightarrow>
                 map (\<lambda>email.
                   \<lparr>te_timestamp = es_timestamp email, te_type = ''communication'',
                    te_subtype = ''email'',
                    te_participants = [es_sender email, es_recipient email],
                    te_content = es_subject email, te_details = EmailDetails email,
                    te_importance = assess_event_importance email\<rparr>) es)
            @ (case documents sources of
                 None \<Rightarrow> []
               | Some ds \<Rightarrow>
                   map (\<lambda>doc.
                     \<lparr>te_timestamp = (case ds_date doc of None \<Rightarrow> Some now | Some d \<Rightarrow> d),
                      te_type = ''legal_action'',
                      te_subtype = (case ds_document_type doc of None \<Rightarrow> ''unknown'' | Some t \<Rightarrow> t),
                      te_participants = (case ds_parties doc of None \<Rightarrow> [] | Some ps \<Rightarrow> ps),
                      te_content = (case ds_title doc of None \<Rightarrow> '''' | Some t \<Rightarrow> t),
                      te_details = DocumentDetails doc, te_importance = ''high''\<rparr>) ds)
      in py_sorted te_timestamp timeline)"

section \<open>Metadata extraction: \<open>extract_complete_email_metadata\<close>\<close>

text \<open>
  A parsed message is its list of header fields, in order, whether it is multipart, and
  the parts that \<^verbatim>\<open>msg.walk()\<close> yields: the message itself first, then every part below it.
  Of a part the model keeps what the extractor reads: the content type, the content
  disposition, the file name, and the payload that \<^verbatim>\<open>get_payload(decode=True)\<close> returns
  (\<^verbatim>\<open>None\<close> for a multipart container). Header names are matched without regard to case,
  and the first match is the one \<^verbatim>\<open>msg.get\<close> returns.
\<close>

record part =
  part_content_type :: string
  part_disposition :: "string option"
  part_filename :: "string option"
  part_payload :: "string option"

record message =
  headers :: "(string \<times> string) list"
  is_multipart :: bool
  root_part :: part
  subparts :: "part list"

definition walk :: "message \<Rightarrow> part list" where
  "walk msg = root_part msg # subparts msg"

definition msg_get_all :: "message \<Rightarrow> string \<Rightarrow> string list" where
  "msg_get_all msg name = map snd (filter (\<lambda>(k, v). lower k = lower name) (headers msg))"

definition msg_get :: "message \<Rightarrow> string \<Rightarrow> string option" where
  "msg_get msg name = (case msg_get_all msg name of [] \<Rightarrow> None | v # vs \<Rightarrow> Some v)"

definition msg_get_or :: "message \<Rightarrow> string \<Rightarrow> string \<Rightarrow> string" where
  "msg_get_or msg name failobj = (case msg_get msg name of None \<Rightarrow> failobj | Some v \<Rightarrow> v)"

text \<open>
  The functions of the standard library that the extractor calls are parameters:
  the parser, the date and address parsers (\<open>parsedate_to_datetime\<close> yields \<open>None\<close> where
  the library raises \<^verbatim>\<open>ValueError\<close>), the digest, the search for \<^verbatim>\<open>from\s+([^\s]+)\<close> in a
  \<^verbatim>\<open>Received\<close> header, \<^verbatim>\<open>re.findall\<close> with a pattern, \<^verbatim>\<open>bytes.decode('utf-8', errors='ignore')\<close>
  and the hour of a \<^verbatim>\<open>datetime\<close>.

  The rendering \<^verbatim>\<open>str(msg)\<close> is not a function of the message alone. For a multipart message
  whose \<^verbatim>\<open>boundary\<close> parameter is empty the generator makes a boundary from a number that it
  draws with \<^verbatim>\<open>random.randrange\<close>; \<open>message_str\<close> therefore takes the number drawn during
  the call as its first argument.
\<close>

record stdlib =
  message_from_bytes :: "string \<Rightarrow> message"
  parsedate_to_datetime :: "string \<Rightarrow> datetime option"
  parseaddr :: "string \<Rightarrow> string \<times> string"
  getaddresses :: "string list \<Rightarrow> (string \<times> string) list"
  message_str :: "int \<Rightarrow> message \<Rightarrow> string"
  sha256_hexdigest :: "string \<Rightarrow> string"
  re_search_from :: "string \<Rightarrow> string option"
  re_findall :: "string \<Rightarrow> string \<Rightarrow> string list"
  decode_utf8 :: "string \<Rightarrow> string"
  hour_of :: "datetime \<Rightarrow> nat"

record email_metadata =
  message_id :: string
  date_rfc2822 :: string
  date_parsed :: "datetime option"
  sender_name :: string
  sender_email :: string
  recipients_to :: "string list"
  recipients_cc :: "string list"
  recipients_bcc :: "string list"
  reply_to :: string
  subject :: string
  references :: string
  in_reply_to :: string
  mime_version :: string
  content_type :: string
  transfer_encoding :: string
  x_mailer :: string
  x_originating_ip :: string
  received_path :: string
  authentication_results :: string
  arc_authentication :: string
  delivered_to :: string
  message_hash :: string
  extraction_timestamp :: string

fun join :: "string \<Rightarrow> string list \<Rightarrow> string" where
  "join sep [] = []"
| "join sep [x] = x"
| "join sep (x # y # ys) = x @ sep @ join sep (y # ys)"

definition analyze_received_path :: "stdlib \<Rightarrow> string list \<Rightarrow> string" where
  "analyze_received_path lib received_headers =
     join '' -> ''
       (concat (map (\<lambda>header. case re_search_from lib header of
                                  Some server \<Rightarrow> [server]
                                | None \<Rightarrow> [])
                  received_headers))"

text \<open>
  \<open>token\<close> is the number drawn while \<^verbatim>\<open>str(msg)\<close> is rendered and \<open>now\<close> the rendering of
  \<^verbatim>\<open>datetime.now().isoformat()\<close> at the time of the call. The date parser is called on a
  \<^verbatim>\<open>Date\<close> header that is present and not empty, and raises when that header is not a
  date; the other library calls are taken to return.
\<close>

definition extract_complete_email_metadata ::
  "stdlib \<Rightarrow> int \<Rightarrow> string \<Rightarrow> message \<Rightarrow> py_error + email_metadata" where
  "extract_complete_email_metadata lib token now msg =
     (case (case msg_get msg ''Date'' of
              None \<Rightarrow> Inr None
            | Some d \<Rightarrow>
                if d = [] then Inr None
                else (case parsedate_to_datetime lib (msg_get_or msg ''Date'' '''') of
                        None \<Rightarrow> Inl ValueError
                      | Some t \<Rightarrow> Inr (Some t))) of
        Inl e \<Rightarrow> Inl e
      | Inr parsed \<Rightarrow>
          (let sender_parsed = parseaddr lib (msg_get_or msg ''From'' '''')
           in Inr \<lparr>message_id = msg_get_or msg ''Message-ID'' '''',
                   date_rfc2822 = msg_get_or msg ''Date'' '''',
                   date_parsed = parsed,
                   sender_name = fst sender_parsed,
                   sender_email = snd sender_parsed,
                   recipients_to = map snd (getaddresses lib (msg_get_all msg ''To'')),
                   recipients_cc = map snd (getaddresses lib (msg_get_all msg ''Cc'')),
                   recipients_bcc = map snd (getaddresses lib (msg_get_all msg ''Bcc'')),
                   reply_to = msg_get_or msg ''Reply-To'' '''',
                   subject = msg_get_or msg ''Subject'' '''',
                   references = msg_get_or msg ''References'' '''',
                   in_reply_to = msg_get_or msg ''In-Reply-To'' '''',
                   mime_version = msg_get_or msg ''MIME-Version'' '''',
                   content_type = msg_get_or msg ''Content-Type'' '''',
                   transfer_encoding = msg_get_or msg ''Content-Transfer-Encoding'' '''',
                   x_mailer = msg_get_or msg ''X-Mailer'' '''',
                   x_originating_ip = msg_get_or msg ''X-Originating-IP'' '''',
                   received_path = analyze_received_path lib (msg_get_all msg ''Received''),
                   authentication_results = msg_get_or msg ''Authentication-Results'' '''',
                   arc_authentication = msg_get_or msg ''ARC-Authentication-Results'' '''',
                   delivered_to = msg_get_or msg ''Delivered-To'' '''',
                   message_hash = sha256_hexdigest lib (message_str lib token msg),
                   extraction_timestamp = now\<rparr>))"

text \<open>Extraction from the raw bytes, as \<open>process_single_eml\<close> does it: parse, then extract.\<close>

definition extract_from_bytes ::
  "stdlib \<Rightarrow> int \<Rightarrow> string \<Rightarrow> string \<Rightarrow> py_error + email_metadata" where
  "extract_from_bytes lib token now raw =
     extract_complete_email_metadata lib token now (message_from_bytes lib raw)"

section \<open>Methods that the class calls and does not define\<close>

text \<open>
  Processing a file reaches five calls of methods on \<^verbatim>\<open>self\<close> that neither
  \<open>ForensicMetadataExtractor\<close> nor any other source file defines. The lookup of such an
  attribute raises \<^verbatim>\<open>AttributeError\<close>, so each of these calls raises it, whatever its
  argument; no value of the result type \<open>py_object\<close> is ever produced by them.
\<close>

datatype py_object = PyObject

definition calculate_sentiment_score :: "string \<Rightarrow> py_error + py_object" where
  "calculate_sentiment_score content = Inl AttributeError"

definition detect_manipulation_patterns :: "string \<Rightarrow> py_error + py_object" where
  "detect_manipulation_patterns content = Inl AttributeError"

definition analyze_urgency_patterns :: "string \<Rightarrow> py_error + py_object" where
  "analyze_urgency_patterns subject_line = Inl AttributeError"

definition extract_image_exif :: "string \<Rightarrow> py_error + py_object" where
  "extract_image_exif content = Inl AttributeError"

definition extract_pdf_metadata :: "string \<Rightarrow> py_error + py_object" where
  "extract_pdf_metadata content = Inl AttributeError"

section \<open>Attachments: \<open>extract_attachment_metadata\<close>\<close>

record attachment_meta =
  filename :: "string option"
  mime_type :: string
  file_size :: "nat option"
  content_hash :: "string option"
  exif_data :: "py_object option"
  pdf_metadata :: "py_object option"

text \<open>The body of the loop for one part whose disposition is \<^verbatim>\<open>attachment\<close>.\<close>

definition attachment_of :: "stdlib \<Rightarrow> part \<Rightarrow> py_error + attachment_meta" where
  "attachment_of lib p =
     (let attachment =
            \<lparr>filename = part_filename p, mime_type = part_content_type p, file_size = None,
             content_hash = None, exif_data = None, pdf_metadata = None\<rparr>
      in case part_payload p of
           None \<Rightarrow> Inr attachment
         | Some content \<Rightarrow>
             if content = [] then Inr attachment
             else (let sized = attachment\<lparr>file_size := Some (length content),
                                           content_hash := Some (sha256_hexdigest lib content)\<rparr>
                   in if starts_with (mime_type sized) ''image/''
                      then (case extract_image_exif content of
                              Inl e \<Rightarrow> Inl e
                            | Inr exif \<Rightarrow> Inr (sized\<lparr>exif_data := Some exif\<rparr>))
                      else if mime_type sized = ''application/pdf''
                      then (case extract_pdf_metadata content of
                              Inl e \<Rightarrow> Inl e
                            | Inr pdf \<Rightarrow> Inr (sized\<lparr>pdf_metadata := Some pdf\<rparr>))
                      else Inr sized))"

fun attachments_of :: "stdlib \<Rightarrow> part list \<Rightarrow> py_error + attachment_meta list" where
  "attachments_of lib [] = Inr []"
| "attachments_of lib (p # ps) =
     (if part_disposition p = Some ''attachment''
      then (case attachment_of lib p of
              Inl e \<Rightarrow> Inl e
            | Inr attachment \<Rightarrow>
                (case attachments_of lib ps of
                   Inl e \<Rightarrow> Inl e
                 | Inr rest \<Rightarrow> Inr (attachment # rest)))
      else attachments_of lib ps)"

definition extract_attachment_metadata :: "stdlib \<Rightarrow> message \<Rightarrow> py_error + attachment_meta list" where
  "extract_attachment_metadata lib msg = attachments_of lib (walk msg)"

section \<open>Behavioural analysis: \<open>analyze_email_behavior\<close>\<close>

text \<open>
  \<open>get_email_content\<close>: the decoded payload of the first \<^verbatim>\<open>text/plain\<close> part of a multipart
  message (the empty string when there is none), of the message itself otherwise. Decoding
  a payload that is \<^verbatim>\<open>None\<close> raises \<^verbatim>\<open>AttributeError\<close>.
\<close>

definition decode_payload :: "stdlib \<Rightarrow> string option \<Rightarrow> py_error + string" where
  "decode_payload lib p =
     (case p of None \<Rightarrow> Inl AttributeError | Some bytes \<Rightarrow> Inr (decode_utf8 lib bytes))"

definition get_email_content :: "stdlib \<Rightarrow> message \<Rightarrow> py_error + string" where
  "get_email_content lib msg =
     (if is_multipart msg
      then (case filter (\<lambda>p. part_content_type p = ''text/plain'') (walk msg) of
              [] \<Rightarrow> Inr ''''
            | p # ps \<Rightarrow> decode_payload lib (part_payload p))
      else decode_payload lib (part_payload (root_part msg)))"

text \<open>\<^verbatim>\<open>str.split()\<close>: the maximal runs of characters that are not whitespace.\<close>

fun split_from :: "string \<Rightarrow> string \<Rightarrow> string list" where
  "split_from word [] = (if word = [] then [] else [word])"
| "split_from word (c # s) =
     (if is_space c then (if word = [] then split_from [] s else word # split_from [] s)
      else split_from (word @ [c]) s)"

definition str_split :: "string \<Rightarrow> string list" where
  "str_split s = split_from [] s"

text \<open>The eight patterns of \<open>detect_legal_clauses\<close>; \<open>bs\<close> is the backslash.\<close>

definition bs :: string where
  "bs = [CHR 0x5C]"

definition legal_patterns :: "string list" where
  "legal_patterns =
     [''Section'' @ bs @ ''s+'' @ bs @ ''d+[A-Z]*'',
      ''s'' @ bs @ ''s*'' @ bs @ ''.'' @ bs @ ''s*'' @ bs @ ''d+[A-Z]*'',
      ''91ZZ[A-Z]'',
      ''Section'' @ bs @ ''s+86'',
      ''Residential Tenancies Act'', ''VCAT'', ''notice to vacate'', ''breach of duty'']"

definition detect_legal_clauses :: "stdlib \<Rightarrow> string \<Rightarrow> string list" where
  "detect_legal_clauses lib content =
     concat (map (\<lambda>pattern. re_findall lib pattern content) legal_patterns)"

record behavioral_analysis_result =
  thread_depth :: nat
  timestamp_after_hours :: "bool option"
  language_tone :: string
  sentiment_score :: py_object
  legal_clause_references :: "string list"
  manipulation_indicators :: py_object
  urgency_indicators :: py_object

text \<open>
  The statements of \<open>analyze_email_behavior\<close> in their order. The fourth assignment calls
  \<open>calculate_sentiment_score\<close>, which the class does not define.
\<close>

definition analyze_email_behavior ::
  "stdlib \<Rightarrow> message \<Rightarrow> email_metadata \<Rightarrow> py_error + behavioral_analysis_result" where
  "analyze_email_behavior lib msg md =
     (case get_email_content lib msg of
        Inl e \<Rightarrow> Inl e
      | Inr content \<Rightarrow>
          (let depth = (if references md \<noteq> [] then length (str_split (references md)) else 0);
               after_hours = (case date_parsed md of
                                None \<Rightarrow> None
                              | Some d \<Rightarrow> Some (hour_of lib d < 7 \<or> hour_of lib d > 18));
               tone = analyze_language_tone content
           in case calculate_sentiment_score content of
                Inl e \<Rightarrow> Inl e
              | Inr sentiment \<Rightarrow>
                  (let clauses = detect_legal_clauses lib content
                   in case detect_manipulation_patterns content of
                        Inl e \<Rightarrow> Inl e
                      | Inr manipulation \<Rightarrow>
                          (case analyze_urgency_patterns (subject md) of
                             Inl e \<Rightarrow> Inl e
                           | Inr urgency \<Rightarrow>
                               Inr \<lparr>thread_depth = depth,
                                    timestamp_after_hours = after_hours,
                                    language_tone = tone,
                                    sentiment_score = sentiment,
                                    legal_clause_references = clauses,
                                    manipulation_indicators = manipulation,
                                    urgency_indicators = urgency\<rparr>))))"

section \<open>Processing one file: \<open>process_single_eml\<close>\<close>

text \<open>
  The environment of a call: the file system (\<open>None\<close> where \<^verbatim>\<open>open\<close> raises), the library,
  the clock reading and the number drawn while the file at a path is processed, and the
  two SQL statements of \<open>store_email_metadata\<close>, executed by the database library on a
  database of type \<open>'db\<close>: the first returns the row id of the inserted message.
\<close>

record 'db environment =
  read_file :: "string \<Rightarrow> string option"
  lib :: stdlib
  clock :: "string \<Rightarrow> string"
  boundary_token :: "string \<Rightarrow> int"
  insert_email :: "'db \<Rightarrow> email_metadata \<Rightarrow> py_error + (nat \<times> 'db)"
  insert_attachment :: "'db \<Rightarrow> nat \<Rightarrow> attachment_meta \<Rightarrow> py_error + 'db"

fun insert_attachments ::
  "'db environment \<Rightarrow> 'db \<Rightarrow> nat \<Rightarrow> attachment_meta list \<Rightarrow> py_error + 'db" where
  "insert_attachments env db email_id [] = Inr db"
| "insert_attachments env db email_id (attachment # rest) =
     (case insert_attachment env db email_id attachment of
        Inl e \<Rightarrow> Inl e
      | Inr db' \<Rightarrow> insert_attachments env db' email_id rest)"

definition store_email_metadata ::
  "'db environment \<Rightarrow> 'db \<Rightarrow> email_metadata \<Rightarrow> attachment_meta list
     \<Rightarrow> behavioral_analysis_result \<Rightarrow> py_error + 'db" where
  "store_email_metadata env db md atts beh =
     (case insert_email env db md of
        Inl e \<Rightarrow> Inl e
      | Inr (email_id, db') \<Rightarrow> insert_attachments env db' email_id atts)"

record extracted =
  metadata :: email_metadata
  attachments :: "attachment_meta list"
  behavioral :: behavioral_analysis_result

record 'db extractor =
  extracted_metadata :: "extracted list"
  forensic_timeline :: "forensic_event list"
  error_log :: "(string \<times> py_error) list"
  database :: 'db

text \<open>
  The statements inside \<^verbatim>\<open>try\<close>, up to the database insert: the first exception ends them,
  and an insert that raises leaves the database as it was.
\<close>

definition attempt_eml ::
  "'db environment \<Rightarrow> 'db extractor \<Rightarrow> string \<Rightarrow> py_error + (extracted \<times> 'db)" where
  "attempt_eml env self eml_path =
     (case read_file env eml_path of
        None \<Rightarrow> Inl OSError
      | Some raw \<Rightarrow>
          (let msg = message_from_bytes (lib env) raw
           in case extract_complete_email_metadata (lib env) (boundary_token env eml_path)
                     (clock env eml_path) msg of
                Inl e \<Rightarrow> Inl e
              | Inr md \<Rightarrow>
                  (case extract_attachment_metadata (lib env) msg of
                     Inl e \<Rightarrow> Inl e
                   | Inr atts \<Rightarrow>
                       (case analyze_email_behavior (lib env) msg md of
                          Inl e \<Rightarrow> Inl e
                        | Inr beh \<Rightarrow>
                            (case store_email_metadata env (database self) md atts beh of
                               Inl e \<Rightarrow> Inl e
                             | Inr db \<Rightarrow>
                                 Inr (\<lparr>metadata = md, attachments = atts, behavioral = beh\<rparr>,
                                      db))))))"

definition timeline_entry :: "extracted \<Rightarrow> forensic_event" where
  "timeline_entry r =
     \<lparr>timestamp = date_parsed (metadata r),
      event_type = ''email_communication'',
      participants = [sender_email (metadata r)] @ recipients_to (metadata r),
      event_subject = subject (metadata r),
      metadata_hash = message_hash (metadata r)\<rparr>"

text \<open>
  \<^verbatim>\<open>except Exception as e\<close> logs the path with the exception and returns; the two appends
  come after every statement that can raise.
\<close>

definition process_single_eml :: "'db environment \<Rightarrow> 'db extractor \<Rightarrow> string \<Rightarrow> 'db extractor" where
  "process_single_eml env self eml_path =
     (case attempt_eml env self eml_path of
        Inl e \<Rightarrow> self\<lparr>error_log := error_log self @ [(eml_path, e)]\<rparr>
      | Inr (r, db) \<Rightarrow>
          self\<lparr>extracted_metadata := extracted_metadata self @ [r],
               forensic_timeline := forensic_timeline self @ [timeline_entry r],
               database := db\<rparr>)"

section \<open>Sample inputs\<close>

definition sample_intelligence :: intelligence_data where
  "sample_intelligence =
     \<lparr>email_data = Some [(''agent@example.com'',
         [EmailDict (Some (PyStr ''  thanks   '')),
          EmailDict (Some (PyStr ([CHR 0xA0] @ '' 0123456789 '' @ [CHR 0x85]))),
          NotADict, EmailDict None, EmailDict (Some PyNone), EmailDict (Some (PyStr ''''))])],
      behavioral_analysis = Some ''{}''\<rparr>"

definition sample_patterns :: pattern_search where
  "sample_patterns =
     \<lparr>extract_case_citations = (\<lambda>t. if str_in ''Mabo v Queensland'' t then [''Mabo v Queensland (No 2) (1992)''] else []),
      extract_statute_references = (\<lambda>t. []),
      check_hallucination_indicators = (\<lambda>t. [])\<rparr>"

definition undated_email :: email_source where
  "undated_email = \<lparr>es_timestamp = None, es_sender = ''tenant@example.com'',
                     es_recipient = ''agent@example.com'', es_subject = ''Notice''\<rparr>"

definition dated_email :: email_source where
  "dated_email = \<lparr>es_timestamp = Some (Naive 1000), es_sender = ''agent@example.com'',
                   es_recipient = ''tenant@example.com'', es_subject = ''Re: Notice''\<rparr>"

definition undated_event :: forensic_event where
  "undated_event = \<lparr>timestamp = None, event_type = ''email_communication'',
                     participants = [''tenant@example.com'', ''agent@example.com''],
                     event_subject = ''Notice'', metadata_hash = ''0a''\<rparr>"

definition zoned_event :: forensic_event where
  "zoned_event = \<lparr>timestamp = Some (Aware 1000), event_type = ''email_communication'',
                   participants = [''agent@example.com'', ''tenant@example.com''],
                   event_subject = ''Re: Notice'', metadata_hash = ''0b''\<rparr>"

text \<open>
  The boundary that the generator of the library makes from a drawn number: fifteen
  \<open>=\<close>, the number in nineteen decimal digits (\<open>digits_of 19\<close>), and \<open>==\<close>.
\<close>

fun digits_of :: "nat \<Rightarrow> int \<Rightarrow> string" where
  "digits_of 0 n = []"
| "digits_of (Suc k) n = digits_of k (n div 10) @ [''0123456789'' ! nat (n mod 10)]"

definition make_boundary :: "int \<Rightarrow> string" where
  "make_boundary token = replicate 15 CHR ''='' @ digits_of 19 token @ ''==''"

definition lines_text :: "string list \<Rightarrow> string" where
  "lines_text ls = concat (map (\<lambda>l. l @ [CHR 0x0A]) ls)"

text \<open>
  The bytes of a multipart message whose \<^verbatim>\<open>boundary\<close> parameter is empty, with one
  \<^verbatim>\<open>text/plain\<close> part, and the message that the parser makes of them.
\<close>

definition multipart_raw :: string where
  "multipart_raw =
     lines_text
       [''From: tenant@example.com'', ''To: agent@example.com'', ''Subject: Notice'',
        ''MIME-Version: 1.0'',
        ''Content-Type: multipart/mixed; boundary='' @ [CHR 0x22, CHR 0x22],
        '''', ''--'', ''Content-Type: text/plain'', '''', ''hello'', ''----'']"

definition multipart_message :: message where
  "multipart_message =
     \<lparr>headers = [(''From'', ''tenant@example.com''), (''To'', ''agent@example.com''),
                 (''Subject'', ''Notice''), (''MIME-Version'', ''1.0''),
                 (''Content-Type'', ''multipart/mixed; boundary='' @ [CHR 0x22, CHR 0x22])],
      is_multipart = True,
      root_part = \<lparr>part_content_type = ''multipart/mixed'', part_disposition = None,
                    part_filename = None, part_payload = None\<rparr>,
      subparts = [\<lparr>part_content_type = ''text/plain'', part_disposition = None,
                    part_filename = None, part_payload = Some (lines_text [''hello''])\<rparr>]\<rparr>"

text \<open>
  A library for the sample: its parser knows the multipart sample and reads any other
  input as a message without headers; its rendering of a multipart message writes the
  boundary made from the drawn number into the \<^verbatim>\<open>Content-Type\<close> header and around each
  part, as the generator of the library does when the message has none; its digest is a
  stand-in that, like SHA-256 on the renderings compared below, gives different texts
  different digests.
\<close>

definition sample_parse :: "string \<Rightarrow> message" where
  "sample_parse raw =
     (if raw = multipart_raw then multipart_message
      else \<lparr>headers = [], is_multipart = False,
             root_part = \<lparr>part_content_type = ''text/plain'', part_disposition = None,
                           part_filename = None, part_payload = Some raw\<rparr>,
             subparts = []\<rparr>)"

definition sample_str :: "int \<Rightarrow> message \<Rightarrow> string" where
  "sample_str token msg =
     (if is_multipart msg
      then lines_text
             (map (\<lambda>(k, v). k @ '': ''
                     @ (if lower k = ''content-type''
                        then part_content_type (root_part msg) @ ''; boundary=''
                             @ [CHR 0x22] @ make_boundary token @ [CHR 0x22]
                        else v))
                (headers msg)
              @ [''''])
           @ concat (map (\<lambda>p. lines_text [''--'' @ make_boundary token,
                                           ''Content-Type: '' @ part_content_type p, '''']
                                @ (case part_payload p of None \<Rightarrow> '''' | Some b \<Rightarrow> b))
                       (subparts msg))
           @ lines_text [''--'' @ make_boundary token @ ''--'']
      else lines_text (map (\<lambda>(k, v). k @ '': '' @ v) (headers msg) @ [''''])
           @ (case part_payload (root_part msg) of None \<Rightarrow> '''' | Some b \<Rightarrow> b))"

definition sample_lib :: stdlib where
  "sample_lib =
     \<lparr>message_from_bytes = sample_parse,
      parsedate_to_datetime = (\<lambda>s. None),
      parseaddr = (\<lambda>s. ('''', s)),
      getaddresses = map (\<lambda>s. ('''', s)),
      message_str = sample_str,
      sha256_hexdigest = (\<lambda>s. ''digest of '' @ s),
      re_search_from = (\<lambda>s. None),
      re_findall = (\<lambda>pattern s. []),
      decode_utf8 = (\<lambda>bytes. bytes),
      hour_of = (\<lambda>d. 0)\<rparr>"

text \<open>
  An environment with one readable file, the multipart sample, and a database that
  accepts every insert; and an extractor that has processed nothing yet.
\<close>

definition sample_env :: "unit environment" where
  "sample_env =
     \<lparr>read_file = (\<lambda>p. if p = ''notice.eml'' then Some multipart_raw else None),
      lib = sample_lib,
      clock = (\<lambda>p. ''2024-02-01T10:00:00''),
      boundary_token = (\<lambda>p. 6765113388439898574),
      insert_email = (\<lambda>db md. Inr (1, db)),
      insert_attachment = (\<lambda>db email_id attachment. Inr db)\<rparr>"

definition new_extractor :: "unit extractor" where
  "new_extractor =
     \<lparr>extracted_metadata = [], forensic_timeline = [], error_log = [], database = ()\<rparr>"

section \<open>Properties of the string primitives\<close>

lemma starts_with_prefix: "starts_with s k = prefix k s"
  by (induction s k rule: starts_with.induct) auto

lemma str_in_sublist: "str_in k s = sublist k s"
  by (induction s) (auto simp: starts_with_prefix sublist_Cons_right)

section \<open>Keyword scores\<close>

lemma indicator_score_length: "indicator_score ks t = int (length (filter (\<lambda>k. str_in k t) ks))"
  unfolding indicator_score_def by (induction ks) auto

lemma indicator_score_card:
  "distinct ks \<Longrightarrow> indicator_score ks t = int (card {k \<in> set ks. str_in k t})"
proof -
  assume d: "distinct ks"
  have "{k \<in> set ks. str_in k t} = set (filter (\<lambda>k. str_in k t) ks)" by auto
  moreover have "distinct (filter (\<lambda>k. str_in k t) ks)" using d by simp
  ultimately show ?thesis
    using distinct_card [of "filter (\<lambda>k. str_in k t) ks"]
    by (simp add: indicator_score_length)
qed

lemma indicator_score_nonneg: "0 \<le> indicator_score ks t"
  by (simp add: indicator_score_length)

section \<open>Tone classification\<close>

text \<open>
  C1 (amended). When the aggressive score equals the passive score and the professional
  score is 0, the classification is \<open>passive\<close> if the tied score is positive and
  \<open>neutral\<close> if it is 0: the first test is the strict comparison
  \<^verbatim>\<open>aggressive_score > max(passive_score, professional_score)\<close>, which a tie fails.
\<close>

theorem tone_tie_aggressive_passive:
  assumes "aggressive_score content = passive_score content"
    and "professional_score content = 0"
  shows "analyze_language_tone content =
           (if 0 < passive_score content then ''passive'' else ''neutral'')"
  using assms by (simp add: analyze_language_tone_def)

text \<open>The theorem at a body with two aggressive and two passive indicators.\<close>

theorem tone_tie_aggressive_passive_witness:
  "aggressive_score ''You must pay immediately, please, kindly.'' =
     passive_score ''You must pay immediately, please, kindly.''
   \<and> professional_score ''You must pay immediately, please, kindly.'' = 0
   \<and> analyze_language_tone ''You must pay immediately, please, kindly.'' = ''passive''"
proof -
  have a: "aggressive_score ''You must pay immediately, please, kindly.'' = 2" by code_simp
  have p: "passive_score ''You must pay immediately, please, kindly.'' = 2" by code_simp
  have r: "professional_score ''You must pay immediately, please, kindly.'' = 0" by code_simp
  show ?thesis
    using tone_tie_aggressive_passive [of "''You must pay immediately, please, kindly.''"] a p r
    by simp
qed

text \<open>
  C1 as stated fails: two aggressive indicators (\<open>must\<close>, \<open>immediately\<close>), two passive ones
  (\<open>please\<close>, \<open>kindly\<close>), no professional one, and the classification is not
  \<open>aggressive\<close>.
\<close>

theorem tone_tie_counterexample:
  "aggressive_score ''You MUST reply IMMEDIATELY; please do so, kindly.'' = 2
   \<and> passive_score ''You MUST reply IMMEDIATELY; please do so, kindly.'' = 2
   \<and> professional_score ''You MUST reply IMMEDIATELY; please do so, kindly.'' = 0
   \<and> analyze_language_tone ''You MUST reply IMMEDIATELY; please do so, kindly.'' \<noteq> ''aggressive''"
  by code_simp

section \<open>Indicator groups\<close>

lemma map_of_scored_groups:
  "distinct (map fst groups) \<Longrightarrow>
   map_of (filter (\<lambda>(name, score). score > (0::int)) (map (\<lambda>(name, ks). (name, g ks)) groups)) n =
     (case map_of groups n of None \<Rightarrow> None
      | Some ks \<Rightarrow> if g ks > 0 then Some (g ks) else None)"
proof (induction groups)
  case Nil
  then show ?case by simp
next
  case (Cons a groups)
  obtain name ks where a: "a = (name, ks)" by (cases a)
  have absent: "name \<notin> fst ` set groups" using Cons.prems a by simp
  have "fst ` set (filter (\<lambda>(name, score). score > (0::int)) (map (\<lambda>(name, ks). (name, g ks)) groups))
          \<subseteq> fst ` set groups"
    by force
  then have none: "map_of (filter (\<lambda>(name, score). score > (0::int))
                       (map (\<lambda>(name, ks). (name, g ks)) groups)) name = None"
    using absent by (auto simp: map_of_eq_None_iff)
  show ?case
    using Cons a none by (auto split: option.splits)
qed

lemma distinct_emotion_names: "distinct (map fst emotion_keywords)"
  by (simp add: emotion_keywords_def)

lemma distinct_emotion_keywords:
  "(emotion, keywords) \<in> set emotion_keywords \<Longrightarrow> distinct keywords"
  by (auto simp: emotion_keywords_def)

text \<open>
  C8 (amended). The score of an indicator group is the number of the group's configured
  keywords that occur at least once in the lower-cased body, so a keyword repeated in the
  body contributes 1; every score is a non-negative integer; \<open>detect_emotions\<close> reports a
  group exactly when its score is positive. The same holds for the three tone groups.
\<close>

theorem keyword_score_counts_present_keywords:
  assumes "(emotion, keywords) \<in> set emotion_keywords"
  shows "indicator_score keywords (lower text) = int (card {k \<in> set keywords. str_in k (lower text)})
       \<and> 0 \<le> indicator_score keywords (lower text)
       \<and> map_of (detect_emotions text) emotion =
           (if 0 < indicator_score keywords (lower text)
            then Some (indicator_score keywords (lower text)) else None)
       \<and> aggressive_score text = int (card {k \<in> set aggressive_indicators. str_in k (lower text)})
       \<and> passive_score text = int (card {k \<in> set passive_indicators. str_in k (lower text)})
       \<and> professional_score text = int (card {k \<in> set professional_indicators. str_in k (lower text)})"
proof -
  have m: "map_of emotion_keywords emotion = Some keywords"
    by (rule map_of_is_SomeI [OF distinct_emotion_names assms])
  have 1: "indicator_score keywords (lower text) = int (card {k \<in> set keywords. str_in k (lower text)})"
    using assms by (intro indicator_score_card distinct_emotion_keywords)
  have 2: "map_of (detect_emotions text) emotion =
           (if 0 < indicator_score keywords (lower text)
            then Some (indicator_score keywords (lower text)) else None)"
    unfolding detect_emotions_def Let_def by (simp add: map_of_scored_groups [OF distinct_emotion_names] m)
  have 3: "aggressive_score text = int (card {k \<in> set aggressive_indicators. str_in k (lower text)})"
    unfolding aggressive_score_def by (rule indicator_score_card) (simp add: aggressive_indicators_def)
  have 4: "passive_score text = int (card {k \<in> set passive_indicators. str_in k (lower text)})"
    unfolding passive_score_def by (rule indicator_score_card) (simp add: passive_indicators_def)
  have 5: "professional_score text = int (card {k \<in> set professional_indicators. str_in k (lower text)})"
    unfolding professional_score_def by (rule indicator_score_card) (simp add: professional_indicators_def)
  show ?thesis using 1 2 3 4 5 indicator_score_nonneg by simp
qed

text \<open>
  C8 as stated fails: the keyword \<open>urgent\<close> occurs three times in the body and the urgency
  score is 1, not the number of occurrences.
\<close>

theorem keyword_score_counterexample:
  "map_of (detect_emotions ''Urgent, urgent, URGENT!'') ''urgency'' = Some 1
   \<and> map_of (detect_emotions ''Urgent, urgent, URGENT!'') ''urgency'' \<noteq>
       Some (occurrence_score [''urgent'', ''immediate'', ''asap'', ''rush'', ''quickly'']
               (lower ''Urgent, urgent, URGENT!''))
   \<and> occurrence_score [''urgent'', ''immediate'', ''asap'', ''rush'', ''quickly'']
        (lower ''Urgent, urgent, URGENT!'') = 3"
  by code_simp

text \<open>The theorem at the urgency group: two of its keywords occur, one of them twice.\<close>

theorem keyword_score_counts_present_keywords_witness:
  "(''urgency'', [''urgent'', ''immediate'', ''asap'', ''rush'', ''quickly'']) \<in> set emotion_keywords
   \<and> map_of (detect_emotions ''urgent and urgent: reply asap'') ''urgency'' = Some 2
   \<and> card {k \<in> set [''urgent'', ''immediate'', ''asap'', ''rush'', ''quickly''].
             str_in k (lower ''urgent and urgent: reply asap'')} = 2"
proof -
  have g: "(''urgency'', [''urgent'', ''immediate'', ''asap'', ''rush'', ''quickly'']) \<in> set emotion_keywords"
    by (simp add: emotion_keywords_def)
  have s: "indicator_score [''urgent'', ''immediate'', ''asap'', ''rush'', ''quickly'']
             (lower ''urgent and urgent: reply asap'') = 2"
    by code_simp
  show ?thesis
    using keyword_score_counts_present_keywords [OF g, of "''urgent and urgent: reply asap''"] g s
    by simp
qed

section \<open>Machiavellian index and the risk flag\<close>

lemma py_round2_quarters: "py_round2 (of_int k / 4) = of_int k / 4"
proof -
  have "(of_int k / 4 :: real) * 100 = of_int (25 * k)" by simp
  then have "round_half_even (of_int k / 4 * 100) = 25 * k"
    unfolding round_half_even_def Let_def by (simp only: floor_of_int) simp
  then show ?thesis by (simp add: py_round2_def)
qed

lemma trait_values:
  "deception (score_machiavellian_traits text) =
     (if str_in ''confidential'' (lower text) \<or> str_in ''subjective'' (lower text)
         \<or> str_in ''understanding'' (lower text) then 1 else 0)"
  "emotional_control (score_machiavellian_traits text) =
     (if str_in ''regrettably'' (lower text) then 1 else 0)"
  "strategic_vagueness (score_machiavellian_traits text) =
     (if str_in ''unforeseen circumstance'' (lower text) then 1 else 0)"
  "dominance_cue (score_machiavellian_traits text) =
     (if str_in ''as per our agreement'' (lower text) then 1 else 0)"
  unfolding score_machiavellian_traits_def Let_def by simp_all

lemma index_value:
  "machiavellian_index (score_machiavellian_traits text) =
     of_int (deception (score_machiavellian_traits text)
             + emotional_control (score_machiavellian_traits text)
             + strategic_vagueness (score_machiavellian_traits text)
             + dominance_cue (score_machiavellian_traits text)) / 4"
  unfolding score_machiavellian_traits_def Let_def
  by (simp only: mach_traits.simps py_round2_quarters)

lemma high_flag_iff:
  "(''High Machiavellian traits'' \<in> set (flags (build_risk_profile text))) =
     (machiavellian_index (score_machiavellian_traits text) \<ge> 1)"
  unfolding build_risk_profile_def Let_def add_flag_def by simp

text \<open>
  C9. Each of the four trait scores is 0 or 1, the index is their sum divided by 4 and lies
  in \<open>[0, 1]\<close>, and \<open>build_risk_profile\<close> raises the flag \<open>High Machiavellian traits\<close>
  exactly when all four trait scores are 1.
\<close>

theorem machiavellian_index_and_flag:
  "deception (score_machiavellian_traits text) \<in> {0, 1}
   \<and> emotional_control (score_machiavellian_traits text) \<in> {0, 1}
   \<and> strategic_vagueness (score_machiavellian_traits text) \<in> {0, 1}
   \<and> dominance_cue (score_machiavellian_traits text) \<in> {0, 1}
   \<and> machiavellian_index (score_machiavellian_traits text) =
       of_int (deception (score_machiavellian_traits text)
               + emotional_control (score_machiavellian_traits text)
               + strategic_vagueness (score_machiavellian_traits text)
               + dominance_cue (score_machiavellian_traits text)) / 4
   \<and> 0 \<le> machiavellian_index (score_machiavellian_traits text)
   \<and> machiavellian_index (score_machiavellian_traits text) \<le> 1
   \<and> (''High Machiavellian traits'' \<in> set (flags (build_risk_profile text))) =
       (deception (score_machiavellian_traits text) = 1
        \<and> emotional_control (score_machiavellian_traits text) = 1
        \<and> strategic_vagueness (score_machiavellian_traits text) = 1
        \<and> dominance_cue (score_machiavellian_traits text) = 1)"
proof -
  let ?m = "score_machiavellian_traits text"
  have d: "deception ?m \<in> {0, 1}" by (simp add: trait_values(1))
  have c: "emotional_control ?m \<in> {0, 1}" by (simp add: trait_values(2))
  have v: "strategic_vagueness ?m \<in> {0, 1}" by (simp add: trait_values(3))
  have p: "dominance_cue ?m \<in> {0, 1}" by (simp add: trait_values(4))
  have lo: "0 \<le> machiavellian_index ?m"
    using d c v p by (auto simp: index_value)
  have hi: "machiavellian_index ?m \<le> 1"
    using d c v p by (auto simp: index_value)
  have allfour: "(machiavellian_index ?m \<ge> 1) =
       (deception ?m = 1 \<and> emotional_control ?m = 1 \<and> strategic_vagueness ?m = 1
        \<and> dominance_cue ?m = 1)"
    using d c v p by (auto simp: index_value)
  show ?thesis
    using d c v p lo hi allfour index_value [of "text"] high_flag_iff [of "text"] by blast
qed

text \<open>The theorem at a text in which all four indicators fire, and at one in which one does.\<close>

theorem machiavellian_index_and_flag_witness:
  "machiavellian_index (score_machiavellian_traits
      ''Regrettably, as per our agreement, an unforeseen circumstance; confidential'') = 1
   \<and> ''High Machiavellian traits'' \<in> set (flags (build_risk_profile
      ''Regrettably, as per our agreement, an unforeseen circumstance; confidential''))
   \<and> machiavellian_index (score_machiavellian_traits ''Regrettably, we decline.'') = 1 / 4
   \<and> ''High Machiavellian traits'' \<notin> set (flags (build_risk_profile ''Regrettably, we decline.''))"
proof -
  have c: "deception (score_machiavellian_traits ''Regrettably, as per our agreement, an unforeseen circumstance; confidential'') = 1"
     "emotional_control (score_machiavellian_traits ''Regrettably, as per our agreement, an unforeseen circumstance; confidential'') = 1"
     "strategic_vagueness (score_machiavellian_traits ''Regrettably, as per our agreement, an unforeseen circumstance; confidential'') = 1"
     "dominance_cue (score_machiavellian_traits ''Regrettably, as per our agreement, an unforeseen circumstance; confidential'') = 1"
    by code_simp+
  have d: "deception (score_machiavellian_traits ''Regrettably, we decline.'') = 0"
     "emotional_control (score_machiavellian_traits ''Regrettably, we decline.'') = 1"
     "strategic_vagueness (score_machiavellian_traits ''Regrettably, we decline.'') = 0"
     "dominance_cue (score_machiavellian_traits ''Regrettably, we decline.'') = 0"
    by code_simp+
  show ?thesis
    using machiavellian_index_and_flag [of "''Regrettably, as per our agreement, an unforeseen circumstance; confidential''"]
      machiavellian_index_and_flag [of "''Regrettably, we decline.''"] c d
    by simp
qed

section \<open>Success probability\<close>

lemma base_probability_bounds:
  "1 / 2 \<le> dict_get (map_of base_probabilities) strategy 0.5
   \<and> dict_get (map_of base_probabilities) strategy 0.5 \<le> 0.85"
  by (simp add: dict_get_def base_probabilities_def)

text \<open>
  C7. For every strategy and every relationship data the success probability lies in
  \<open>[0, 1]\<close>; it is the base probability plus the adjustments, capped at 1 by
  \<^verbatim>\<open>min(1.0, base + adjustments)\<close>, and that cap reports base 0.85 plus adjustments 0.3 as
  exactly 1.
\<close>

theorem success_probability_clamped:
  "0 \<le> calculate_success_probability strategy narrative_data relationship_data
   \<and> calculate_success_probability strategy narrative_data relationship_data \<le> 1
   \<and> calculate_success_probability strategy narrative_data relationship_data =
       clamp_probability (dict_get (map_of base_probabilities) strategy 0.5)
         (if relationship_data \<noteq> []
             \<and> np_mean (map (\<lambda>(name, r). dict_get r ''overall_power_score'' 0.5) relationship_data) > 0.7
          then 0.1 else 0)
   \<and> clamp_probability 0.85 0.3 = 1"
  using base_probability_bounds [of strategy]
  unfolding calculate_success_probability_def clamp_probability_def Let_def
  by (auto simp: min_def)

text \<open>The theorem at the strategy with the highest base probability.\<close>

theorem success_probability_clamped_witness:
  "calculate_success_probability ''settlement_negotiation'' ()
      [(''landlord'', [''overall_power_score'' \<mapsto> 0.9]), (''tenant'', Map.empty)] = 0.85
   \<and> calculate_success_probability ''settlement_negotiation'' ()
      [(''landlord'', [''overall_power_score'' \<mapsto> 0.9])] = 0.95
   \<and> clamp_probability 0.85 0.3 = 1"
  using success_probability_clamped [of "''settlement_negotiation''" "()"
      "[(''landlord'', [''overall_power_score'' \<mapsto> 0.9]), (''tenant'', Map.empty)]"]
    success_probability_clamped [of "''settlement_negotiation''" "()"
      "[(''landlord'', [''overall_power_score'' \<mapsto> 0.9])]"]
  by (simp add: np_mean_def dict_get_def base_probabilities_def clamp_probability_def)

section \<open>Causal links\<close>

lemma map_singleton_if: "map f (if c then [x] else []) = (if c then [f x] else [])"
  by simp

lemma build_map_by_index:
  "build_causal_relationship_map a ev tline = map (link_at a ev tline) (causal_index_pairs a tline)"
  unfolding build_causal_relationship_map_def causal_index_pairs_def link_at_def Let_def
  by (simp add: map_concat comp_def map_singleton_if cong: if_cong)

lemma causal_index_pairs_iff:
  "(j, i) \<in> set (causal_index_pairs a tline) \<longleftrightarrow>
     i < length tline \<and> j < i \<and> i \<le> j + 5 \<and> a (tline ! j) (tline ! i) > 0.3"
  unfolding causal_index_pairs_def by (auto split: if_splits)

text \<open>
  C4. Every causal link is produced at an index pair \<open>(j, i)\<close> of the timeline: the cause is
  the event at \<open>j\<close>, the effect the event at \<open>i\<close>, with \<open>j < i\<close> (the effect comes
  strictly later in timeline order), \<open>i \<le> j + 5\<close> (the cause is among the five events
  immediately before the effect) and a strength above 0.3. No link is ever produced from
  an index below \<open>i - 5\<close>, whatever the assessment function returns.
\<close>

theorem causal_links_within_window:
  "build_causal_relationship_map a ev tline = map (link_at a ev tline) (causal_index_pairs a tline)
   \<and> (\<forall>p \<in> set (causal_index_pairs a tline).
         fst p < snd p \<and> snd p < length tline \<and> snd p \<le> fst p + 5
         \<and> a (tline ! fst p) (tline ! snd p) > 0.3)
   \<and> (\<forall>j i. i < length tline \<and> j + 5 < i \<longrightarrow> (j, i) \<notin> set (causal_index_pairs a tline))"
proof -
  have w: "\<forall>p \<in> set (causal_index_pairs a tline).
         fst p < snd p \<and> snd p < length tline \<and> snd p \<le> fst p + 5
         \<and> a (tline ! fst p) (tline ! snd p) > 0.3"
  proof
    fix p assume "p \<in> set (causal_index_pairs a tline)"
    then show "fst p < snd p \<and> snd p < length tline \<and> snd p \<le> fst p + 5
         \<and> a (tline ! fst p) (tline ! snd p) > 0.3"
      using causal_index_pairs_iff [of "fst p" "snd p" a tline] by simp
  qed
  have o: "\<forall>j i. i < length tline \<and> j + 5 < i \<longrightarrow> (j, i) \<notin> set (causal_index_pairs a tline)"
    by (simp add: causal_index_pairs_iff)
  show ?thesis using build_map_by_index [of a ev tline] w o by blast
qed

text \<open>
  The theorem at a timeline of twelve identical events, every pair assessed at strength 1:
  index 10 is linked from index 5 and not from index 3.
\<close>

theorem causal_links_within_window_witness:
  "(3, 10) \<notin> set (causal_index_pairs (\<lambda>x y. if x = y then 1 else 0)
                      (replicate 12 ''same participants''))
   \<and> (5, 10) \<in> set (causal_index_pairs (\<lambda>x y. if x = y then 1 else 0)
                      (replicate 12 ''same participants''))
   \<and> length (build_causal_relationship_map (\<lambda>x y. if x = y then 1 else 0) (\<lambda>x y. ())
                (replicate 12 ''same participants'')) = 45"
proof -
  have e: "causal_index_pairs (\<lambda>x y. if x = y then 1 else (0::real))
             (replicate 12 ''same participants'') =
    [(0, 1), (0, 2), (1, 2), (0, 3), (1, 3), (2, 3), (0, 4), (1, 4), (2, 4),
     (3, 4), (0, 5), (1, 5), (2, 5), (3, 5), (4, 5), (1, 6), (2, 6), (3, 6),
     (4, 6), (5, 6), (2, 7), (3, 7), (4, 7), (5, 7), (6, 7), (3, 8), (4, 8),
     (5, 8), (6, 8), (7, 8), (4, 9), (5, 9), (6, 9), (7, 9), (8, 9), (5, 10),
     (6, 10), (7, 10), (8, 10), (9, 10), (6, 11), (7, 11), (8, 11), (9, 11),
     (10, 11)]"
    by code_simp
  show ?thesis
    using causal_links_within_window [of "\<lambda>x y. if x = y then 1 else 0" "\<lambda>x y. ()"
        "replicate 12 ''same participants''"]
    by (simp add: e)
qed

section \<open>The forensic timeline when all keys can be compared\<close>

text \<open>
  With no aware timestamp among the events, the forensic timeline is built: it holds the
  same events, sorted by key, events with equal keys in their original order, and a
  missing timestamp has the least key.
\<close>

lemma null_key_is_earliest:
  "timestamp x = None \<Longrightarrow> rank (forensic_key x) = 0"
  "timestamp y = Some (Naive n) \<Longrightarrow> 0 \<le> rank (forensic_key y)"
  by (simp_all add: forensic_key_def datetime_min_def)

lemma naive_keys_comparable:
  assumes "\<forall>k \<in> set ks. \<exists>n. k = Some (Naive n)"
  shows "pairwise_comparable ks"
  using assms
proof (induction ks)
  case Nil
  then show ?case by simp
next
  case (Cons k ks)
  have "list_all (lt_defined k) ks"
    using Cons.prems by (fastforce simp: list_all_iff)
  then show ?case using Cons by simp
qed

lemma forensic_timeline_without_zones:
  assumes "\<forall>x \<in> set tline. timestamp x = None \<or> (\<exists>n. timestamp x = Some (Naive n))"
  shows "\<exists>r. create_forensic_timeline gaps tline = Inr r
           \<and> mset (events r) = mset tline
           \<and> sorted (map (\<lambda>x. rank (forensic_key x)) (events r))
           \<and> (\<forall>k. filter (\<lambda>x. rank (forensic_key x) = k) (events r) =
                    filter (\<lambda>x. rank (forensic_key x) = k) tline)"
proof -
  have "\<forall>k \<in> set (map forensic_key tline). \<exists>n. k = Some (Naive n)"
    using assms by (auto simp: forensic_key_def datetime_min_def)
  then have c: "pairwise_comparable (map forensic_key tline)"
    by (rule naive_keys_comparable)
  show ?thesis
    unfolding create_forensic_timeline_def py_sorted_def
    by (simp add: c sort_key_stable)
qed

section \<open>Verification of an empty evidence set\<close>

lemma not_substantial_iff:
  "(\<not> substantial c) = (case c of PyNone \<Rightarrow> True | PyStr s \<Rightarrow> s = [] \<or> length (strip s) \<le> 10)"
  by (auto simp: substantial_def split: py_value.splits)

lemma no_substantial_no_results:
  assumes "\<forall>c \<in> set cs. \<not> substantial c"
  shows "concat (map (\<lambda>(i, content).
              case content of
                PyStr s \<Rightarrow> if substantial content then [(i, f s)] else []
              | PyNone \<Rightarrow> [])
              (enumerate n cs)) = []"
  using assms by (induction cs arbitrary: n) (auto split: py_value.splits)

text \<open>
  C10. When no content piece qualifies for verification (every extracted content is
  \<^verbatim>\<open>None\<close>, empty, or at most 10 characters long after stripping), the result has
  \<open>total_content_pieces = 0\<close>, \<open>verification_rate = 100\<close> and \<open>government_verified = True\<close>:
  the empty evidence set is reported as fully verified.
\<close>

theorem empty_evidence_reported_verified:
  assumes "\<forall>c \<in> set (all_text_content d).
             (case c of PyNone \<Rightarrow> True | PyStr s \<Rightarrow> s = [] \<or> length (strip s) \<le> 10)"
  shows "total_content_pieces (verify_all_legal_information rx d) = 0
       \<and> verified_pieces (verify_all_legal_information rx d) = 0
       \<and> verification_rate (verify_all_legal_information rx d) = 100
       \<and> government_verified (verify_all_legal_information rx d)
       \<and> detailed_results (verify_all_legal_information rx d) = []"
proof -
  have "\<forall>c \<in> set (all_text_content d). \<not> substantial c"
    using assms by (simp add: not_substantial_iff)
  then have "concat (map (\<lambda>(i, content).
              case content of
                PyStr s \<Rightarrow> if substantial content then [(i, auto_verify_legal_content rx s)] else []
              | PyNone \<Rightarrow> [])
              (enumerate 0 (all_text_content d))) = []"
    by (rule no_substantial_no_results)
  then show ?thesis
    unfolding verify_all_legal_information_def Let_def by simp
qed

text \<open>
  The theorem at an input whose five content pieces are all too short, one of them only
  once its no-break space and its next-line character are stripped.
\<close>

theorem empty_evidence_reported_verified_witness:
  "all_text_content sample_intelligence =
     [PyStr ''  thanks   '', PyStr ([CHR 0xA0] @ '' 0123456789 '' @ [CHR 0x85]), PyNone,
      PyStr '''', PyStr ''{}'']
   \<and> length (strip ''  thanks   '') = 6
   \<and> length (strip ([CHR 0xA0] @ '' 0123456789 '' @ [CHR 0x85])) = 10
   \<and> total_content_pieces (verify_all_legal_information sample_patterns sample_intelligence) = 0
   \<and> verification_rate (verify_all_legal_information sample_patterns sample_intelligence) = 100
   \<and> government_verified (verify_all_legal_information sample_patterns sample_intelligence)"
proof -
  have c: "all_text_content sample_intelligence =
     [PyStr ''  thanks   '', PyStr ([CHR 0xA0] @ '' 0123456789 '' @ [CHR 0x85]), PyNone,
      PyStr '''', PyStr ''{}'']"
    by (simp add: all_text_content_def sample_intelligence_def)
  have s: "strip ''  thanks   '' = ''thanks''" "strip ''{}'' = ''{}''"
    "strip ([CHR 0xA0] @ '' 0123456789 '' @ [CHR 0x85]) = ''0123456789''"
    by (simp_all add: strip_def is_space_def)
  have h: "\<forall>c \<in> set (all_text_content sample_intelligence).
             (case c of PyNone \<Rightarrow> True | PyStr s \<Rightarrow> s = [] \<or> length (strip s) \<le> 10)"
    using s by (simp add: c)
  show ?thesis
    using empty_evidence_reported_verified [OF h, of sample_patterns] c s by simp
qed

section \<open>Timelines with a null timestamp\<close>

text \<open>
  C3 fails on the code. The narrative timeline sorts on the raw timestamp, so a record
  without one makes the sort raise \<^verbatim>\<open>TypeError\<close>; the forensic timeline replaces a missing
  timestamp by the naive \<^verbatim>\<open>datetime.min\<close>, which cannot be compared with the aware
  timestamp of a message whose date carries a time zone, and raises as well.
\<close>

theorem null_timestamp_crashes_timeline:
  "extract_comprehensive_timeline importance now
     \<lparr>emails = Some [undated_email, dated_email], documents = None\<rparr> = Inl TypeError
   \<and> create_forensic_timeline gaps [undated_event, zoned_event] = Inl TypeError"
  by (simp add: extract_comprehensive_timeline_def create_forensic_timeline_def py_sorted_def
      forensic_key_def datetime_min_def undated_email_def dated_email_def undated_event_def
      zoned_event_def)

section \<open>The message hash on identical bytes\<close>

text \<open>
  For a message without a \<^verbatim>\<open>Date\<close> header the extraction returns a record; its hash is
  the digest of the rendering, and the number drawn during the rendering reaches no other
  field.
\<close>

lemma undated_extraction:
  assumes "msg_get msg ''Date'' = None"
  shows "\<not> isl (extract_complete_email_metadata lb k now msg)"
    and "map_sum id message_hash (extract_complete_email_metadata lb k now msg) =
           Inr (sha256_hexdigest lb (message_str lb k msg))"
    and "map_sum id (\<lambda>r. r\<lparr>message_hash := h\<rparr>) (extract_complete_email_metadata lb k now msg) =
         map_sum id (\<lambda>r. r\<lparr>message_hash := h\<rparr>) (extract_complete_email_metadata lb k' now msg)"
  using assms by (simp_all add: extract_complete_email_metadata_def Let_def)

lemma sample_renderings_differ:
  "sample_str 6765113388439898574 multipart_message \<noteq>
   sample_str 462984504984968870 multipart_message"
  by code_simp

text \<open>
  C6 fails on the code. The hash is the digest of \<^verbatim>\<open>str(msg)\<close>, not of the raw bytes, and the
  rendering of a multipart message whose \<^verbatim>\<open>boundary\<close> parameter is empty contains a
  boundary made from a number drawn at random: two extractions from the same bytes, here
  with the two numbers drawn in two runs of the library, succeed, agree on every other
  field and differ in the message hash.
\<close>

theorem message_hash_varies_between_runs:
  "\<not> isl (extract_from_bytes sample_lib 6765113388439898574 ''2024-02-01T10:00:00'' multipart_raw)
   \<and> \<not> isl (extract_from_bytes sample_lib 462984504984968870 ''2024-02-01T10:00:00'' multipart_raw)
   \<and> map_sum id message_hash
        (extract_from_bytes sample_lib 6765113388439898574 ''2024-02-01T10:00:00'' multipart_raw) \<noteq>
      map_sum id message_hash
        (extract_from_bytes sample_lib 462984504984968870 ''2024-02-01T10:00:00'' multipart_raw)
   \<and> map_sum id (\<lambda>r. r\<lparr>message_hash := ''''\<rparr>)
        (extract_from_bytes sample_lib 6765113388439898574 ''2024-02-01T10:00:00'' multipart_raw) =
      map_sum id (\<lambda>r. r\<lparr>message_hash := ''''\<rparr>)
        (extract_from_bytes sample_lib 462984504984968870 ''2024-02-01T10:00:00'' multipart_raw)"
proof -
  have p: "message_from_bytes sample_lib multipart_raw = multipart_message"
    by (simp add: sample_lib_def sample_parse_def)
  have d: "msg_get multipart_message ''Date'' = None"
    by code_simp
  have s: "message_str sample_lib = sample_str"
    "sha256_hexdigest sample_lib = (\<lambda>s. ''digest of '' @ s)"
    by (simp_all add: sample_lib_def)
  show ?thesis
    unfolding extract_from_bytes_def p
    using undated_extraction(1) [OF d, of sample_lib]
      undated_extraction(3) [OF d, of "''''" sample_lib]
      sample_renderings_differ
    by (simp add: undated_extraction(2) [OF d] s)
qed

section \<open>What \<open>process_single_eml\<close> extracts\<close>

lemma analyze_email_behavior_raises: "isl (analyze_email_behavior lb msg md)"
proof (cases "get_email_content lb msg")
  case (Inl e)
  then show ?thesis by (simp add: analyze_email_behavior_def)
next
  case (Inr content)
  then show ?thesis
    by (simp add: analyze_email_behavior_def calculate_sentiment_score_def Let_def)
qed

lemma attempt_eml_raises: "isl (attempt_eml env self p)"
proof (cases "read_file env p")
  case None
  then show ?thesis by (simp add: attempt_eml_def)
next
  case (Some raw)
  let ?msg = "message_from_bytes (lib env) raw"
  show ?thesis
  proof (cases "extract_complete_email_metadata (lib env) (boundary_token env p) (clock env p) ?msg")
    case (Inl e)
    then show ?thesis using Some by (simp add: attempt_eml_def)
  next
    case md: (Inr md)
    show ?thesis
    proof (cases "extract_attachment_metadata (lib env) ?msg")
      case (Inl e)
      then show ?thesis using Some md by (simp add: attempt_eml_def)
    next
      case atts: (Inr atts)
      obtain e where "analyze_email_behavior (lib env) ?msg md = Inl e"
        using analyze_email_behavior_raises [of "lib env" ?msg md]
        by (cases "analyze_email_behavior (lib env) ?msg md") auto
      then show ?thesis using Some md atts by (simp add: attempt_eml_def)
    qed
  qed
qed

lemma process_single_eml_logs:
  "\<exists>e. process_single_eml env self p = self\<lparr>error_log := error_log self @ [(p, e)]\<rparr>"
proof -
  obtain e where "attempt_eml env self p = Inl e"
    using attempt_eml_raises [of env self p] by (cases "attempt_eml env self p") auto
  then show ?thesis by (auto simp: process_single_eml_def)
qed

lemma batch_logs:
  "extracted_metadata (foldl (process_single_eml env) self paths) = extracted_metadata self
   \<and> forensic_timeline (foldl (process_single_eml env) self paths) = forensic_timeline self
   \<and> database (foldl (process_single_eml env) self paths) = database self
   \<and> map fst (error_log (foldl (process_single_eml env) self paths)) =
       map fst (error_log self) @ paths"
proof (induction paths arbitrary: self)
  case Nil
  then show ?case by simp
next
  case (Cons p paths)
  obtain e where step: "process_single_eml env self p = self\<lparr>error_log := error_log self @ [(p, e)]\<rparr>"
    using process_single_eml_logs by blast
  show ?case
    using Cons.IH [of "self\<lparr>error_log := error_log self @ [(p, e)]\<rparr>"]
    by (simp add: step)
qed

text \<open>
  C2 fails on the code. Every call of \<open>process_single_eml\<close> ends in the \<^verbatim>\<open>except\<close> branch:
  the behavioural analysis calls \<open>calculate_sentiment_score\<close>, which the class does not
  define, so whatever the files of a batch are and in whatever state the extractor is,
  each file is logged as an error, the next one is processed, and no record and no
  timeline event is ever added. The sample file is readable and well formed, and is
  logged with \<^verbatim>\<open>AttributeError\<close>.
\<close>

theorem no_message_is_extracted:
  "extracted_metadata (foldl (process_single_eml env) self paths) = extracted_metadata self
   \<and> forensic_timeline (foldl (process_single_eml env) self paths) = forensic_timeline self
   \<and> map fst (error_log (foldl (process_single_eml env) self paths)) =
       map fst (error_log self) @ paths
   \<and> process_single_eml sample_env new_extractor ''notice.eml'' =
       new_extractor\<lparr>error_log := [(''notice.eml'', AttributeError)]\<rparr>"
proof -
  have "attempt_eml sample_env new_extractor ''notice.eml'' = Inl AttributeError"
    by code_simp
  then have "process_single_eml sample_env new_extractor ''notice.eml'' =
       new_extractor\<lparr>error_log := [(''notice.eml'', AttributeError)]\<rparr>"
    by (simp add: process_single_eml_def new_extractor_def)
  then show ?thesis using batch_logs [of env self paths] by simp
qed

end
